theory Spec2Isabelle
  imports Main
begin

section \<open>Python strings and paths\<close>

text \<open>
  A Python \<open>str\<close> is modelled as a \<^typ>\<open>string\<close>, each \<^typ>\<open>char\<close> standing for the code
  point of the same number (code points below 256). The library functions the two scripts
  call on strings and POSIX paths are written out below, following CPython.
\<close>

definition NL :: char where
  "NL = CHR 0x0A"

definition str_lower_char :: "char \<Rightarrow> char" where
  \<comment> \<open>\<open>str.lower\<close> on one code point below 256: A-Z and the Latin-1 capitals.\<close>
  "str_lower_char c =
     (let n = (of_char c :: nat)
      in if (65 \<le> n \<and> n \<le> 90) \<or> (192 \<le> n \<and> n \<le> 222 \<and> n \<noteq> 215)
         then char_of (n + 32) else c)"

definition str_lower :: "string \<Rightarrow> string" where
  "str_lower s = map str_lower_char s"

definition str_isspace :: "char \<Rightarrow> bool" where
  \<comment> \<open>the code points below 256 that \<open>str.strip()\<close> removes\<close>
  "str_isspace c =
     (let n = (of_char c :: nat)
      in (9 \<le> n \<and> n \<le> 13) \<or> (28 \<le> n \<and> n \<le> 32) \<or> n = 133 \<or> n = 160)"

definition str_strip :: "string \<Rightarrow> string" where
  "str_strip s = rev (dropWhile str_isspace (rev (dropWhile str_isspace s)))"

definition str_startswith :: "string \<Rightarrow> string \<Rightarrow> bool" where
  "str_startswith s p = (take (length p) s = p)"

definition str_endswith :: "string \<Rightarrow> string \<Rightarrow> bool" where
  "str_endswith s p = (length p \<le> length s \<and> drop (length s - length p) s = p)"

fun str_contains :: "string \<Rightarrow> string \<Rightarrow> bool" where
  \<comment> \<open>\<open>needle in s\<close>\<close>
  "str_contains needle [] = (needle = [])"
| "str_contains needle (c # cs) = (str_startswith (c # cs) needle \<or> str_contains needle cs)"

fun str_split :: "char \<Rightarrow> string \<Rightarrow> string list" where
  \<comment> \<open>\<open>s.split(d)\<close> for a one-character separator\<close>
  "str_split d [] = [[]]"
| "str_split d (c # cs) =
     (if c = d then [] # str_split d cs
      else (case str_split d cs of
              w # ws \<Rightarrow> (c # w) # ws
            | [] \<Rightarrow> [[c]]))"

definition str_split1 :: "char \<Rightarrow> string \<Rightarrow> string list" where
  \<comment> \<open>\<open>s.split(d, 1)\<close>: split at the first separator only\<close>
  "str_split1 d s =
     (let a = takeWhile (\<lambda>c. c \<noteq> d) s
      in if length a < length s then [a, drop (Suc (length a)) s] else [s])"

fun split_starstar :: "string \<Rightarrow> string list" where
  \<comment> \<open>\<open>s.split('**')\<close>: left to right, separators do not overlap\<close>
  "split_starstar [] = [[]]"
| "split_starstar [c] = [[c]]"
| "split_starstar (c # d # cs) =
     (if c = CHR ''*'' \<and> d = CHR ''*'' then [] # split_starstar cs
      else (case split_starstar (d # cs) of
              w # ws \<Rightarrow> (c # w) # ws
            | [] \<Rightarrow> [[c]]))"

fun str_join :: "string \<Rightarrow> string list \<Rightarrow> string" where
  \<comment> \<open>\<open>sep.join(xs)\<close>\<close>
  "str_join sep [] = []"
| "str_join sep [x] = x"
| "str_join sep (x # y # ys) = x @ sep @ str_join sep (y # ys)"

definition os_path_basename :: "string \<Rightarrow> string" where
  \<comment> \<open>\<open>posixpath.basename\<close>: what follows the last slash\<close>
  "os_path_basename p = rev (takeWhile (\<lambda>c. c \<noteq> CHR ''/'') (rev p))"

definition os_path_join2 :: "string \<Rightarrow> string \<Rightarrow> string" where
  \<comment> \<open>one step of \<open>posixpath.join\<close>\<close>
  "os_path_join2 path b =
     (if str_startswith b ''/'' then b
      else if path = [] \<or> str_endswith path ''/'' then path @ b
      else path @ ''/'' @ b)"

definition os_path_join :: "string \<Rightarrow> string list \<Rightarrow> string" where
  "os_path_join a ps = foldl os_path_join2 a ps"

definition normpath_step :: "nat \<Rightarrow> string list \<Rightarrow> string \<Rightarrow> string list" where
  \<comment> \<open>the body of the loop over the components in \<open>posixpath.normpath\<close>\<close>
  "normpath_step initial_slashes new_comps part =
     (if part = [] \<or> part = ''.'' then new_comps
      else if part \<noteq> ''..'' \<or> (initial_slashes = 0 \<and> new_comps = [])
              \<or> (new_comps \<noteq> [] \<and> last new_comps = ''..'')
           then new_comps @ [part]
      else if new_comps \<noteq> [] then butlast new_comps
      else new_comps)"

definition os_path_normpath :: "string \<Rightarrow> string" where
  "os_path_normpath path =
     (if path = [] then ''.''
      else
        let initial_slashes =
              (if str_startswith path ''/''
               then (if str_startswith path ''//'' \<and> \<not> str_startswith path ''///''
                     then 2 else 1)
               else (0::nat));
            comps = foldl (normpath_step initial_slashes) [] (str_split (CHR ''/'') path);
            p = replicate initial_slashes (CHR ''/'') @ str_join ''/'' comps
        in if p = [] then ''.'' else p)"

definition os_path_abspath :: "string \<Rightarrow> string \<Rightarrow> string" where
  \<comment> \<open>\<open>posixpath.abspath\<close>; the first argument is what \<open>os.getcwd()\<close> returns\<close>
  "os_path_abspath cwd path =
     os_path_normpath (if str_startswith path ''/'' then path else os_path_join cwd [path])"

subsection \<open>fnmatch\<close>

text \<open>
  \<open>fnmatch.fnmatch(name, pat)\<close> on POSIX (where \<open>os.path.normcase\<close> changes nothing)
  compiles the pattern to a regular expression and matches the whole name: \<open>*\<close> matches
  any run of characters, \<open>?\<close> any one character, \<open>[...]\<close> one character of a class,
  every other character itself. A \<open>[\<close> with no closing bracket is an ordinary character.
\<close>

definition class_end :: "string \<Rightarrow> nat option" where
  \<comment> \<open>the index of the closing bracket in what follows a \<open>[\<close>\<close>
  "class_end p =
     (let j0 = (if str_startswith p ''!'' then 1 else 0);
          j1 = (if j0 < length p \<and> p ! j0 = CHR '']'' then Suc j0 else j0);
          j = j1 + length (takeWhile (\<lambda>c. c \<noteq> CHR '']'') (drop j1 p))
      in if j \<ge> length p then None else Some j)"

fun class_chunks :: "nat \<Rightarrow> string \<Rightarrow> string \<Rightarrow> string list" where
  \<comment> \<open>the class body cut at its range hyphens: a hyphen counts when \<open>skip\<close> characters
      of the current chunk have been passed; \<open>acc\<close> is the current chunk, reversed\<close>
  "class_chunks skip acc [] = [rev acc]"
| "class_chunks skip acc (c # cs) =
     (if skip = 0 \<and> c = CHR ''-'' then rev acc # class_chunks 2 [] cs
      else class_chunks (skip - 1) (c # acc) cs)"

definition class_close_chunks :: "string list \<Rightarrow> string list" where
  \<comment> \<open>an empty last chunk gives its hyphen back to the chunk before it\<close>
  "class_close_chunks chunks =
     (if 2 \<le> length chunks \<and> last chunks = []
      then butlast (butlast chunks) @ [last (butlast chunks) @ ''-'']
      else chunks)"

fun class_drop_empty :: "string list \<Rightarrow> string list" where
  \<comment> \<open>the loop from the right that removes the ranges whose ends are out of order\<close>
  "class_drop_empty [] = []"
| "class_drop_empty [a] = [a]"
| "class_drop_empty (a # b0 # bs) =
     (case class_drop_empty (b0 # bs) of
        [] \<Rightarrow> [a]
      | b # more \<Rightarrow>
          (case (rev a, b) of
             (x # ra, y # tb) \<Rightarrow>
               if (of_char x :: nat) > of_char y then (rev ra @ tb) # more else a # b # more
           | _ \<Rightarrow> a # b # more))"

fun class_ranges :: "string list \<Rightarrow> (char \<times> char) list" where
  \<comment> \<open>the ranges of the joined chunks: from the last character of a chunk to the first
      of the next\<close>
  "class_ranges (a # b # bs) =
     (case (rev a, b) of
        (x # _, y # _) \<Rightarrow> (x, y) # class_ranges (b # bs)
      | _ \<Rightarrow> class_ranges (b # bs))"
| "class_ranges _ = []"

definition class_member :: "string list \<Rightarrow> char \<Rightarrow> bool" where
  "class_member chunks x =
     (x \<in> set (concat chunks) \<or>
      list_ex (\<lambda>(lo, hi). (of_char lo :: nat) \<le> of_char x \<and> (of_char x :: nat) \<le> of_char hi)
        (class_ranges chunks))"

definition class_match :: "string \<Rightarrow> char \<Rightarrow> bool" where
  \<comment> \<open>whether the class with body \<open>stuff\<close> (the text between the brackets) matches \<open>x\<close>\<close>
  "class_match stuff x =
     (let chunks =
            (if CHR ''-'' \<notin> set stuff then [stuff]
             else class_drop_empty
                    (class_close_chunks
                       (class_chunks (if str_startswith stuff ''!'' then 2 else 1) [] stuff)))
      in if concat chunks = [] then False
         else if chunks = [''!''] then True
         else (case chunks of
                 (c # first) # more \<Rightarrow>
                   if c = CHR ''!'' then \<not> class_member (first # more) x
                   else class_member chunks x
               | _ \<Rightarrow> class_member chunks x))"

fun glob_match :: "string \<Rightarrow> string \<Rightarrow> bool" where
  \<comment> \<open>\<open>glob_match pat name\<close>: the whole of \<open>name\<close> matches \<open>pat\<close>\<close>
  "glob_match [] name = (name = [])"
| "glob_match (c # p) [] = (c = CHR ''*'' \<and> glob_match p [])"
| "glob_match (c # p) (x # name) =
     (if c = CHR ''*'' then glob_match p (x # name) \<or> glob_match (c # p) name
      else if c = CHR ''?'' then glob_match p name
      else if c = CHR ''['' then
        (case class_end p of
           None \<Rightarrow> x = CHR ''['' \<and> glob_match p name
         | Some j \<Rightarrow> class_match (take j p) x \<and> glob_match (drop (Suc j) p) name)
      else x = c \<and> glob_match p name)"

definition fnmatch :: "string \<Rightarrow> string \<Rightarrow> bool" where
  "fnmatch name pat = glob_match pat name"

section \<open>The change analyzer (analyze-changes-ai.py)\<close>

subsection \<open>What the script reads from its environment\<close>

text \<open>
  The analyzer only queries git and the file system; it mutates nothing but the three
  files it writes. Its environment is therefore a record of answers: what each
  \<open>subprocess.run\<close> gives back (return code and captured standard output, or nothing
  when the call itself raises), the working directory, the directory walk, the lines of a
  file, and whether each write succeeds.
\<close>

record analyzer_env =
  git_result :: "string list \<Rightarrow> (int \<times> string) option"
  getcwd :: string
  os_walk :: "string \<Rightarrow> (string \<times> string list) list"
  read_lines :: "string \<Rightarrow> string list option"
  stdin_isatty :: bool
  user_input :: "string option"
  gitignore_append_ok :: bool
  prompt_write_ok :: bool
  analysis_write_ok :: bool

datatype py_exit = SystemExit nat | PyException

definition exit_status :: "py_exit + 'a \<Rightarrow> nat" where
  \<comment> \<open>the status of the process: \<open>sys.exit(n)\<close> gives \<open>n\<close>, an exception that nothing
      catches 1, running off the end of the script 0\<close>
  "exit_status r = (case r of Inl (SystemExit n) \<Rightarrow> n | Inl PyException \<Rightarrow> 1 | Inr _ \<Rightarrow> 0)"

subsection \<open>GitignoreParser\<close>

record GitignoreParser =
  repo_root :: string
  ignore_patterns :: "string list"
  sensitive_patterns :: "string list"

definition SENSITIVE_PATTERNS :: "string list" where
  "SENSITIVE_PATTERNS =
     [''*_api_key*'', ''*_apikey*'', ''*_secret*'', ''*_token*'', ''*_password*'',
      ''*.pem'', ''*.key'', ''*.p12'', ''*.pfx'', ''*.jks'',
      ''.env*'', ''*.env'', ''env.*'',
      ''*credentials*.json'', ''*secrets*.json'',
      ''GoogleService-Info.plist'', ''google-services.json'',
      ''*.db'', ''*.sqlite'', ''*.sqlite3'',
      ''id_rsa*'', ''id_dsa*'', ''*.ppk'', ''id_*.pub'',
      ''.aws/*'', ''credentials'', ''*.tfvars'',
      ''*.log'', ''*.dump'', ''npm-debug.log*'', ''yarn-debug.log*'',
      ''.DS_Store'', ''Thumbs.db'']"

definition SENSITIVE_KEYWORDS :: "string list" where
  "SENSITIVE_KEYWORDS =
     [''_secret'', ''_password'', ''_token'', ''_key'', ''credential'',
      ''private_'', ''api_key'', ''apikey'']"

definition find_repo_root :: "analyzer_env \<Rightarrow> string" where
  "find_repo_root env =
     (case git_result env [''git'', ''rev-parse'', ''--show-toplevel''] of
        Some (rc, out) \<Rightarrow> if rc = 0 then str_strip out else getcwd env
      | None \<Rightarrow> getcwd env)"

fun parse_gitignore_lines :: "string \<Rightarrow> string list \<Rightarrow> string list \<Rightarrow> string list" where
  \<comment> \<open>the loop over the lines of one ignore-rule file, appending to the patterns\<close>
  "parse_gitignore_lines base_dir [] pats = pats"
| "parse_gitignore_lines base_dir (l # ls) pats =
     (let line = str_strip l
      in if line = [] \<or> str_startswith line ''#'' then parse_gitignore_lines base_dir ls pats
         else
           let pattern =
                 (if str_startswith line ''/'' then os_path_join base_dir [drop 1 line]
                  else os_path_join base_dir [''**'', line])
           in parse_gitignore_lines base_dir ls (pats @ [pattern]))"

definition parse_gitignore_file ::
    "analyzer_env \<Rightarrow> string \<Rightarrow> string \<Rightarrow> string list \<Rightarrow> string list" where
  \<comment> \<open>a file that cannot be read gives a warning and no pattern\<close>
  "parse_gitignore_file env gitignore_path base_dir pats =
     (case read_lines env gitignore_path of
        None \<Rightarrow> pats
      | Some ls \<Rightarrow> parse_gitignore_lines base_dir ls pats)"

fun load_gitignore ::
    "analyzer_env \<Rightarrow> (string \<times> string list) list \<Rightarrow> string list \<Rightarrow> string list" where
  "load_gitignore env [] pats = pats"
| "load_gitignore env ((root, files) # rest) pats =
     (if ''.gitignore'' \<in> set files
      then load_gitignore env rest
             (parse_gitignore_file env (os_path_join root [''.gitignore'']) root pats)
      else load_gitignore env rest pats)"

definition GitignoreParser_init :: "analyzer_env \<Rightarrow> string option \<Rightarrow> GitignoreParser" where
  "GitignoreParser_init env root_arg =
     (let root = (case root_arg of
                    Some r \<Rightarrow> if r \<noteq> [] then r else find_repo_root env
                  | None \<Rightarrow> find_repo_root env)
      in \<lparr> repo_root = root,
           ignore_patterns = load_gitignore env (os_walk env root) [],
           sensitive_patterns = SENSITIVE_PATTERNS \<rparr>)"

definition rule_matches :: "string \<Rightarrow> string \<Rightarrow> bool" where
  \<comment> \<open>the two tests \<open>should_ignore\<close> makes for one pattern\<close>
  "rule_matches abs_path pattern =
     (if fnmatch abs_path pattern then True
      else if str_contains ''**'' pattern then
        (case split_starstar pattern of
           [a, b] \<Rightarrow> str_startswith abs_path a \<and> str_endswith abs_path b
         | _ \<Rightarrow> False)
      else False)"

fun should_ignore_loop :: "string \<Rightarrow> string list \<Rightarrow> bool" where
  "should_ignore_loop abs_path [] = False"
| "should_ignore_loop abs_path (pattern # ps) =
     (if rule_matches abs_path pattern then True else should_ignore_loop abs_path ps)"

definition should_ignore :: "GitignoreParser \<Rightarrow> string \<Rightarrow> string \<Rightarrow> bool" where
  \<comment> \<open>the second argument is the working directory \<open>os.path.abspath\<close> resolves against\<close>
  "should_ignore g cwd file_path =
     should_ignore_loop (os_path_abspath cwd file_path) (ignore_patterns g)"

fun sensitive_pattern_loop :: "string \<Rightarrow> string \<Rightarrow> string list \<Rightarrow> bool" where
  "sensitive_pattern_loop file_name file_path_lower [] = False"
| "sensitive_pattern_loop file_name file_path_lower (pattern # ps) =
     (if fnmatch file_name (str_lower pattern) \<or> fnmatch file_path_lower (str_lower pattern)
      then True
      else sensitive_pattern_loop file_name file_path_lower ps)"

fun sensitive_keyword_loop :: "string \<Rightarrow> string list \<Rightarrow> bool" where
  "sensitive_keyword_loop file_name [] = False"
| "sensitive_keyword_loop file_name (keyword # ks) =
     (if str_contains keyword file_name then True else sensitive_keyword_loop file_name ks)"

definition is_sensitive :: "GitignoreParser \<Rightarrow> string \<Rightarrow> bool" where
  "is_sensitive g file_path =
     (let file_name = str_lower (os_path_basename file_path);
          file_path_lower = str_lower file_path
      in if sensitive_pattern_loop file_name file_path_lower (sensitive_patterns g) then True
         else if sensitive_keyword_loop file_name SENSITIVE_KEYWORDS then True
         else False)"

subsection \<open>Change enumeration and classification\<close>

definition py_set :: "string list \<Rightarrow> string list" where
  \<comment> \<open>\<open>set(xs)\<close> as the sequence its iteration gives: each element once. Python leaves
      the order open; the model keeps the order of the last occurrences.\<close>
  "py_set xs = remdups xs"

definition output_lines :: "string \<Rightarrow> string list" where
  \<comment> \<open>\<open>stdout.strip().split('\n')\<close>\<close>
  "output_lines out = str_split NL (str_strip out)"

definition get_git_changes :: "analyzer_env \<Rightarrow> string list" where
  "get_git_changes env =
     (case git_result env [''git'', ''diff'', ''--name-only''] of
        None \<Rightarrow> []
      | Some (rc1, out1) \<Rightarrow>
     (case git_result env [''git'', ''diff'', ''--cached'', ''--name-only''] of
        None \<Rightarrow> []
      | Some (rc2, out2) \<Rightarrow>
     (case git_result env [''git'', ''ls-files'', ''--others'', ''--exclude-standard''] of
        None \<Rightarrow> []
      | Some (rc3, out3) \<Rightarrow>
          (let modified = output_lines out1;
               staged = output_lines out2;
               untracked = output_lines out3
           in filter (\<lambda>f. f \<noteq> []) (py_set (modified @ staged @ untracked))))))"

fun check_sensitive_loop ::
    "GitignoreParser \<Rightarrow> string \<Rightarrow> string list \<Rightarrow> string list \<Rightarrow> string list
       \<Rightarrow> string list \<times> string list" where
  "check_sensitive_loop g cwd [] sensitive_files ignored_files =
     (sensitive_files, ignored_files)"
| "check_sensitive_loop g cwd (file # files) sensitive_files ignored_files =
     (if should_ignore g cwd file
      then check_sensitive_loop g cwd files sensitive_files (ignored_files @ [file])
      else if is_sensitive g file
      then check_sensitive_loop g cwd files (sensitive_files @ [file]) ignored_files
      else check_sensitive_loop g cwd files sensitive_files ignored_files)"

definition check_sensitive_files ::
    "string list \<Rightarrow> GitignoreParser \<Rightarrow> string \<Rightarrow> string list \<times> string list" where
  "check_sensitive_files files g cwd = check_sensitive_loop g cwd files [] []"

definition exclude :: "string list \<Rightarrow> string list \<Rightarrow> string list" where
  \<comment> \<open>\<open>[f for f in changed_files if f not in xs]\<close>\<close>
  "exclude changed_files xs = [f \<leftarrow> changed_files. f \<notin> set xs]"

definition eligible_files :: "string list \<Rightarrow> string list \<Rightarrow> string list \<Rightarrow> string list" where
  \<comment> \<open>what \<open>main\<close> keeps of the changed files once the sensitive and the ignored ones
      are excluded\<close>
  "eligible_files changed_files sensitive_files ignored_files =
     (let changed1 = exclude changed_files sensitive_files
      in if ignored_files \<noteq> [] then exclude changed1 ignored_files else changed1)"

definition handle_sensitive ::
    "analyzer_env \<Rightarrow> string list \<Rightarrow> string list \<Rightarrow> py_exit + string list" where
  \<comment> \<open>the branch of \<open>main\<close> taken when sensitive files were found; it gives the changed
      files that remain\<close>
  "handle_sensitive env changed_files sensitive_files =
     (if sensitive_files \<noteq> [] then
        (if stdin_isatty env then
           (case user_input env of
              None \<Rightarrow> Inl PyException
            | Some response \<Rightarrow>
                if str_lower response = ''y'' then
                  (if gitignore_append_ok env
                   then Inr (exclude changed_files sensitive_files)
                   else Inl PyException)
                else Inr changed_files)
         else Inr (exclude changed_files sensitive_files))
      else Inr changed_files)"

definition analyzer_main :: "analyzer_env \<Rightarrow> py_exit + string list" where
  \<comment> \<open>\<open>main\<close>, up to the texts it writes: the prompt and the analysis are files whose
      writing succeeds or raises. A normal return gives the files that were analysed.\<close>
  "analyzer_main env =
     (let gitignore_parser = GitignoreParser_init env None;
          changed_files = get_git_changes env
      in if changed_files = [] then Inl (SystemExit 1)
         else
           (case check_sensitive_files changed_files gitignore_parser (getcwd env) of
              (sensitive_files, ignored_files) \<Rightarrow>
           (case handle_sensitive env changed_files sensitive_files of
              Inl e \<Rightarrow> Inl e
            | Inr changed1 \<Rightarrow>
                (let changed2 = (if ignored_files \<noteq> [] then exclude changed1 ignored_files
                                 else changed1)
                 in if changed2 = [] then Inl (SystemExit 1)
                    else if \<not> prompt_write_ok env then Inl PyException
                    else if \<not> analysis_write_ok env then Inl PyException
                    else if sensitive_files \<noteq> [] then Inl (SystemExit 1)
                    else Inr changed2))))"

section \<open>The deployment script (gitDeploy.py)\<close>

subsection \<open>Environment and state\<close>

text \<open>
  The script runs git commands that change the repository, so the answer of a command may
  depend on the commands run before it: \<open>git_run env history cmd\<close> is the return code
  and the captured standard output of \<open>cmd\<close> after \<open>history\<close>. The state records the
  commands run so far, next to the attributes of the \<open>GitDeploymentScript\<close> object.
  Modification times are only compared, so they are natural numbers here. Console output
  is not part of the model, and the git program is taken to start whenever it is called.
\<close>

record log_file =
  file_name :: string
  st_mtime :: nat
  file_content :: "string option"

record deploy_env =
  git_run :: "string list list \<Rightarrow> string list \<Rightarrow> int \<times> string"
  chdir_ok :: bool
  path_exists :: "string \<Rightarrow> bool"
  deployment_logs :: "log_file list option"
  gitignore_update_ok :: bool
  now_strftime :: string
  now_isoformat :: string

record ChangeSet =
  added :: "string list"
  modified :: "string list"
  deleted :: "string list"
  untracked :: "string list"

record DeploymentRecord =
  deployment_number :: string
  deployment_date :: string
  deployed_by :: string
  title :: string
  description :: string

record Analysis =
  deployment_comment :: string
  summary :: string
  readme_updates :: "string list"
  gitignore_updates :: "string list"
  should_update_readme :: bool
  should_update_gitignore :: bool

record GitDeploymentScript =
  git_root :: string
  changes :: "ChangeSet option"
  claude_analysis :: "Analysis option"
  current_branch :: "string option"
  deployment_info :: "DeploymentRecord option"
  commands :: "string list list"

text \<open>
  In the record of the object, \<open>None\<close> stands for an attribute that is not set yet
  (\<open>current_branch\<close>, \<open>deployment_info\<close>), for the empty dictionary (\<open>changes\<close>) and for
  the empty string (\<open>claude_analysis\<close>) the constructor stores.
\<close>

definition run_command ::
    "deploy_env \<Rightarrow> string list \<Rightarrow> bool \<Rightarrow> GitDeploymentScript
       \<Rightarrow> (py_exit + string option) \<times> GitDeploymentScript" where
  \<comment> \<open>\<open>_run_command\<close>: \<open>subprocess.run\<close> raises only when \<open>check\<close> is set and the
      return code is not 0\<close>
  "run_command env cmd check s =
     (let (rc, out) = git_run env (commands s) cmd;
          s' = s\<lparr>commands := commands s @ [cmd]\<rparr>
      in if check \<and> rc \<noteq> 0
         then (if check then (Inl (SystemExit 1), s') else (Inr None, s'))
         else (Inr (Some (str_strip out)), s'))"

subsection \<open>Reading the status\<close>

definition empty_changes :: ChangeSet where
  "empty_changes = \<lparr> added = [], modified = [], deleted = [], untracked = [] \<rparr>"

definition status_step :: "ChangeSet \<Rightarrow> string \<Rightarrow> py_exit + ChangeSet" where
  \<comment> \<open>the body of the loop over the lines of \<open>git status --porcelain\<close>; on a line of one
      character \<open>status_code[1]\<close> raises\<close>
  "status_step c line =
     (if line = [] then Inr c
      else
        let status_code = take 2 line;
            file_path = drop 3 line
        in (case status_code of
              [staged, working] \<Rightarrow>
                if status_code = ''??'' then Inr (c\<lparr>untracked := untracked c @ [file_path]\<rparr>)
                else if staged = CHR ''M'' \<or> working = CHR ''M''
                then Inr (c\<lparr>modified := modified c @ [file_path]\<rparr>)
                else if staged = CHR ''A'' \<or> working = CHR ''A''
                then Inr (c\<lparr>added := added c @ [file_path]\<rparr>)
                else if staged = CHR ''D'' \<or> working = CHR ''D''
                then (if staged \<noteq> CHR ''D''
                      then Inr (c\<lparr>deleted := deleted c @ [file_path]\<rparr>)
                      else Inr c)
                else Inr c
            | _ \<Rightarrow> Inl PyException))"

fun status_loop :: "ChangeSet \<Rightarrow> string list \<Rightarrow> py_exit option \<times> ChangeSet" where
  \<comment> \<open>the loop; an exception leaves the dictionary as filled so far\<close>
  "status_loop c [] = (None, c)"
| "status_loop c (line # ls) =
     (case status_step c line of
        Inl e \<Rightarrow> (Some e, c)
      | Inr c' \<Rightarrow> status_loop c' ls)"

definition check_git_status ::
    "deploy_env \<Rightarrow> GitDeploymentScript \<Rightarrow> (py_exit + bool) \<times> GitDeploymentScript" where
  "check_git_status env s =
     (case run_command env [''git'', ''branch'', ''--show-current''] True s of
        (Inl e, s1) \<Rightarrow> (Inl e, s1)
      | (Inr branch, s1) \<Rightarrow>
          (let s2 = s1\<lparr>current_branch := branch\<rparr>
           in case run_command env [''git'', ''status'', ''--porcelain''] True s2 of
                (Inl e, s3) \<Rightarrow> (Inl e, s3)
              | (Inr None, s3) \<Rightarrow> (Inr False, s3)
              | (Inr (Some status), s3) \<Rightarrow>
                  if status = [] then (Inr False, s3)
                  else
                    (case status_loop empty_changes (str_split NL status) of
                       (Some e, c) \<Rightarrow> (Inl e, s3\<lparr>changes := Some c\<rparr>)
                     | (None, c) \<Rightarrow> (Inr True, s3\<lparr>changes := Some c\<rparr>))))"

subsection \<open>Reading the deployment log\<close>

fun latest_of :: "log_file \<Rightarrow> log_file list \<Rightarrow> log_file" where
  \<comment> \<open>\<open>max(files, key=mtime)\<close>: the first file of the greatest modification time\<close>
  "latest_of best [] = best"
| "latest_of best (f # fs) = latest_of (if st_mtime f > st_mtime best then f else best) fs"

definition get_latest_deployment_file :: "deploy_env \<Rightarrow> log_file option" where
  \<comment> \<open>\<open>deployment_logs env\<close> is what the glob gives in the first candidate directory that
      exists, and \<open>None\<close> when none of them exists\<close>
  "get_latest_deployment_file env =
     (case deployment_logs env of
        None \<Rightarrow> None
      | Some [] \<Rightarrow> None
      | Some (f # fs) \<Rightarrow> Some (latest_of f fs))"

definition empty_record :: DeploymentRecord where
  "empty_record =
     \<lparr> deployment_number = [], deployment_date = [], deployed_by = [],
       title = [], description = [] \<rparr>"

definition field_value :: "string \<Rightarrow> string option" where
  \<comment> \<open>\<open>line.split(':', 1)[1].strip()\<close>; \<open>None\<close> when the index is out of range\<close>
  "field_value line =
     (case str_split1 (CHR '':'') line of
        [a, v] \<Rightarrow> Some (str_strip v)
      | _ \<Rightarrow> None)"

definition parse_line :: "DeploymentRecord \<Rightarrow> string \<Rightarrow> DeploymentRecord option" where
  "parse_line info line =
     (if str_startswith line ''Deployment Number:''
      then map_option (\<lambda>v. info\<lparr>deployment_number := v\<rparr>) (field_value line)
      else if str_startswith line ''Deployment Date:''
      then map_option (\<lambda>v. info\<lparr>deployment_date := v\<rparr>) (field_value line)
      else if str_startswith line ''Deployed By:''
      then map_option (\<lambda>v. info\<lparr>deployed_by := v\<rparr>) (field_value line)
      else if str_startswith line ''Title:''
      then map_option (\<lambda>v. info\<lparr>title := v\<rparr>) (field_value line)
      else if str_startswith line ''Description:''
      then map_option (\<lambda>v. info\<lparr>description := v\<rparr>) (field_value line)
      else Some info)"

fun parse_lines :: "DeploymentRecord \<Rightarrow> string list \<Rightarrow> bool \<times> DeploymentRecord" where
  \<comment> \<open>the loop over the lines; an exception ends it with the record as filled so far\<close>
  "parse_lines info [] = (True, info)"
| "parse_lines info (line # ls) =
     (case parse_line info line of
        None \<Rightarrow> (False, info)
      | Some info' \<Rightarrow> parse_lines info' ls)"

definition parse_deployment_file ::
    "log_file \<Rightarrow> GitDeploymentScript \<Rightarrow> bool \<times> GitDeploymentScript" where
  "parse_deployment_file deployment_file s =
     (case file_content deployment_file of
        None \<Rightarrow> (False, s)
      | Some content \<Rightarrow>
          (case parse_lines empty_record (str_split NL content) of
             (ok, info) \<Rightarrow> (ok, s\<lparr>deployment_info := Some info\<rparr>)))"

definition analyze_with_deployment_log ::
    "deploy_env \<Rightarrow> GitDeploymentScript \<Rightarrow> (py_exit + bool) \<times> GitDeploymentScript" where
  "analyze_with_deployment_log env s =
     (case get_latest_deployment_file env of
        None \<Rightarrow> (Inr False, s)
      | Some deployment_file \<Rightarrow>
          (case parse_deployment_file deployment_file s of
             (False, s1) \<Rightarrow> (Inr False, s1)
           | (True, s1) \<Rightarrow>
               (case deployment_info s1 of
                  None \<Rightarrow> (Inl PyException, s1)
                | Some info \<Rightarrow>
                    (Inr True, s1\<lparr>claude_analysis :=
                       Some \<lparr> deployment_comment = take 72 (title info),
                              summary = description info,
                              readme_updates = [],
                              gitignore_updates = [],
                              should_update_readme = False,
                              should_update_gitignore = False \<rparr>\<rparr>))))"

subsection \<open>Staging, committing, pushing\<close>

fun stage_existing ::
    "deploy_env \<Rightarrow> string list \<Rightarrow> GitDeploymentScript
       \<Rightarrow> (py_exit + unit) \<times> GitDeploymentScript" where
  \<comment> \<open>the inner loop over one list of paths: a path that is no longer on disk is
      skipped with a warning\<close>
  "stage_existing env [] s = (Inr (), s)"
| "stage_existing env (file_path # fs) s =
     (if path_exists env file_path
      then (case run_command env [''git'', ''add'', file_path] True s of
              (Inl e, s1) \<Rightarrow> (Inl e, s1)
            | (Inr _, s1) \<Rightarrow> stage_existing env fs s1)
      else stage_existing env fs s)"

fun stage_deleted ::
    "deploy_env \<Rightarrow> string list \<Rightarrow> GitDeploymentScript
       \<Rightarrow> (py_exit + unit) \<times> GitDeploymentScript" where
  \<comment> \<open>the loop over the deleted paths\<close>
  "stage_deleted env [] s = (Inr (), s)"
| "stage_deleted env (file_path # fs) s =
     (case run_command env [''git'', ''ls-files'', ''--error-unmatch'', file_path] False s of
        (Inl e, s1) \<Rightarrow> (Inl e, s1)
      | (Inr check_result, s1) \<Rightarrow>
          if check_result \<noteq> None
          then (case run_command env [''git'', ''rm'', ''--cached'', file_path] True s1 of
                  (Inl e, s2) \<Rightarrow> (Inl e, s2)
                | (Inr _, s2) \<Rightarrow> stage_deleted env fs s2)
          else stage_deleted env fs s1)"

definition stage_changes ::
    "deploy_env \<Rightarrow> GitDeploymentScript \<Rightarrow> (py_exit + unit) \<times> GitDeploymentScript" where
  "stage_changes env s =
     (case changes s of
        None \<Rightarrow> (Inl PyException, s)
      | Some c \<Rightarrow>
          (case stage_existing env (modified c) s of
             (Inl e, s1) \<Rightarrow> (Inl e, s1)
           | (Inr _, s1) \<Rightarrow>
          (case stage_existing env (added c) s1 of
             (Inl e, s2) \<Rightarrow> (Inl e, s2)
           | (Inr _, s2) \<Rightarrow>
          (case stage_existing env (untracked c) s2 of
             (Inl e, s3) \<Rightarrow> (Inl e, s3)
           | (Inr _, s3) \<Rightarrow> stage_deleted env (deleted c) s3))))"

definition update_gitignore ::
    "deploy_env \<Rightarrow> GitDeploymentScript \<Rightarrow> (py_exit + unit) \<times> GitDeploymentScript" where
  \<comment> \<open>the text written to the ignore-rule file is not modelled, only whether the
      update succeeds\<close>
  "update_gitignore env s =
     (case claude_analysis s of
        None \<Rightarrow> (Inl PyException, s)
      | Some a \<Rightarrow>
          if \<not> should_update_gitignore a then (Inr (), s)
          else if \<not> gitignore_update_ok env then (Inl PyException, s)
          else (case run_command env [''git'', ''add'', ''.gitignore''] True s of
                  (Inl e, s1) \<Rightarrow> (Inl e, s1)
                | (Inr _, s1) \<Rightarrow> (Inr (), s1)))"

definition fallback_message :: "deploy_env \<Rightarrow> GitDeploymentScript \<Rightarrow> string" where
  \<comment> \<open>the first line when the deployment record gives no title\<close>
  "fallback_message env s =
     (case claude_analysis s of
        Some a \<Rightarrow> deployment_comment a
      | None \<Rightarrow> ''Automated deployment - '' @ now_strftime env)"

definition commit_message :: "deploy_env \<Rightarrow> GitDeploymentScript \<Rightarrow> string" where
  \<comment> \<open>the first line of the message\<close>
  "commit_message env s =
     (case deployment_info s of
        Some info \<Rightarrow>
          if title info \<noteq> []
          then ''Deployment '' @ deployment_number info @ '': '' @ title info
          else fallback_message env s
      | None \<Rightarrow> fallback_message env s)"

definition full_message :: "deploy_env \<Rightarrow> GitDeploymentScript \<Rightarrow> py_exit + string" where
  \<comment> \<open>the message handed to \<open>git commit -m\<close>; reading \<open>current_branch\<close> before it is
      set raises\<close>
  "full_message env s =
     (case current_branch s of
        None \<Rightarrow> Inl PyException
      | Some branch \<Rightarrow>
          Inr (commit_message env s @ [NL, NL]
               @ ''Branch: '' @ branch @ [NL]
               @ ''Automated by: gitDeploy.py'' @ [NL]
               @ ''Timestamp: '' @ now_isoformat env @ [NL]
               @ (case deployment_info s of
                    Some info \<Rightarrow>
                      ''Deployment Log: '' @ deployment_number info @ [NL]
                      @ [NL] @ ''Summary: '' @ description info @ [NL]
                  | None \<Rightarrow>
                      (case claude_analysis s of
                         Some a \<Rightarrow> [NL] @ ''Summary: '' @ summary a @ [NL]
                       | None \<Rightarrow> []))))"

definition create_deployment_commit ::
    "deploy_env \<Rightarrow> GitDeploymentScript \<Rightarrow> (py_exit + unit) \<times> GitDeploymentScript" where
  "create_deployment_commit env s =
     (case full_message env s of
        Inl e \<Rightarrow> (Inl e, s)
      | Inr msg \<Rightarrow>
          (case run_command env [''git'', ''commit'', ''-m'', msg] True s of
             (Inl e, s1) \<Rightarrow> (Inl e, s1)
           | (Inr _, s1) \<Rightarrow> (Inr (), s1)))"

definition upstream_query :: "string \<Rightarrow> string list" where
  "upstream_query branch =
     [''git'', ''rev-parse'', ''--abbrev-ref'', branch @ ''@'' @ ''{upstream}'']"

definition push_to_remote ::
    "deploy_env \<Rightarrow> GitDeploymentScript \<Rightarrow> (py_exit + unit) \<times> GitDeploymentScript" where
  "push_to_remote env s =
     (case current_branch s of
        None \<Rightarrow> (Inl PyException, s)
      | Some branch \<Rightarrow>
          (case run_command env (upstream_query branch) False s of
             (Inl e, s1) \<Rightarrow> (Inl e, s1)
           | (Inr upstream, s1) \<Rightarrow>
               if upstream \<noteq> None \<and> upstream \<noteq> Some []
               then (case run_command env [''git'', ''push''] True s1 of
                       (Inl e, s2) \<Rightarrow> (Inl e, s2)
                     | (Inr _, s2) \<Rightarrow> (Inr (), s2))
               else (case run_command env [''git'', ''push'', ''-u'', ''origin'', branch] True s1 of
                       (Inl e, s2) \<Rightarrow> (Inl e, s2)
                     | (Inr _, s2) \<Rightarrow> (Inr (), s2))))"

subsection \<open>The workflow\<close>

definition deploy_run ::
    "deploy_env \<Rightarrow> GitDeploymentScript \<Rightarrow> (py_exit + unit) \<times> GitDeploymentScript" where
  \<comment> \<open>\<open>run\<close>: the \<open>except Exception\<close> around the push does not catch \<open>SystemExit\<close>\<close>
  "deploy_run env s =
     (case check_git_status env s of
        (Inl e, s1) \<Rightarrow> (Inl e, s1)
      | (Inr False, s1) \<Rightarrow> (Inr (), s1)
      | (Inr True, s1) \<Rightarrow>
     (case analyze_with_deployment_log env s1 of
        (Inl e, s2) \<Rightarrow> (Inl e, s2)
      | (Inr False, s2) \<Rightarrow> (Inl (SystemExit 1), s2)
      | (Inr True, s2) \<Rightarrow>
     (case stage_changes env s2 of
        (Inl e, s3) \<Rightarrow> (Inl e, s3)
      | (Inr _, s3) \<Rightarrow>
     (case update_gitignore env s3 of
        (Inl e, s4) \<Rightarrow> (Inl e, s4)
      | (Inr _, s4) \<Rightarrow>
     (case create_deployment_commit env s4 of
        (Inl e, s5) \<Rightarrow> (Inl e, s5)
      | (Inr _, s5) \<Rightarrow>
     (case push_to_remote env s5 of
        (Inl PyException, s6) \<Rightarrow> (Inr (), s6)
      | (r, s6) \<Rightarrow> (r, s6)))))))"

definition script_init :: "deploy_env \<Rightarrow> (py_exit + unit) \<times> GitDeploymentScript" where
  \<comment> \<open>the constructor: \<open>_find_git_root\<close>, then \<open>os.chdir\<close>\<close>
  "script_init env =
     (let cmd = [''git'', ''rev-parse'', ''--show-toplevel''];
          (rc, out) = git_run env [] cmd;
          s = \<lparr> git_root = str_strip out, changes = None, claude_analysis = None,
                current_branch = None, deployment_info = None, commands = [cmd] \<rparr>
      in if rc \<noteq> 0 then (Inl (SystemExit 1), s)
         else if \<not> chdir_ok env then (Inl PyException, s)
         else (Inr (), s))"

definition deploy_main :: "deploy_env \<Rightarrow> (py_exit + unit) \<times> GitDeploymentScript" where
  \<comment> \<open>\<open>main\<close>: any exception that reaches it ends the process with status 1\<close>
  "deploy_main env =
     (case script_init env of
        (Inl PyException, s) \<Rightarrow> (Inl (SystemExit 1), s)
      | (Inl e, s) \<Rightarrow> (Inl e, s)
      | (Inr _, s) \<Rightarrow>
          (case deploy_run env s of
             (Inl PyException, s1) \<Rightarrow> (Inl (SystemExit 1), s1)
           | (r, s1) \<Rightarrow> (r, s1)))"

section \<open>What git prints\<close>



section \<open>Sample environments\<close>

text \<open>
  A repository on branch \<open>main\<close> whose latest deployment log has the title
  \<open>Fix login bug\<close> and the number 42; the branch has an upstream or not. In it, the path
  \<open>gone.txt\<close> is not in the index: \<open>git ls-files --error-unmatch\<close> and
  \<open>git rm --cached\<close> both fail.
\<close>

definition sample_log :: log_file where
  "sample_log =
     \<lparr> file_name = ''Deployment_42.txt'', st_mtime = 5,
       file_content = Some (''Title: Fix login bug'' @ [NL] @ ''Deployment Number: 42'') \<rparr>"

definition sample_git :: "bool \<Rightarrow> string list list \<Rightarrow> string list \<Rightarrow> int \<times> string" where
  "sample_git has_upstream history cmd =
     (if cmd = [''git'', ''rev-parse'', ''--show-toplevel''] then (0, ''/repo'' @ [NL])
      else if cmd = [''git'', ''branch'', ''--show-current''] then (0, ''main'' @ [NL])
      else if cmd = upstream_query ''main''
      then (if has_upstream then (0, ''origin/main'' @ [NL]) else (128, []))
      else if take 3 cmd = [''git'', ''ls-files'', ''--error-unmatch''] then (1, [])
      else if take 3 cmd = [''git'', ''rm'', ''--cached''] then (128, [])
      else (0, []))"

definition sample_deploy_env :: "bool \<Rightarrow> deploy_env" where
  "sample_deploy_env has_upstream =
     \<lparr> git_run = sample_git has_upstream, chdir_ok = True, path_exists = (\<lambda>p. True),
       deployment_logs = Some [sample_log], gitignore_update_ok = True,
       now_strftime = ''2025-01-01 00:00:00'', now_isoformat = ''2025-01-01T00:00:00'' \<rparr>"

definition sample_script :: GitDeploymentScript where
  "sample_script =
     \<lparr> git_root = ''/repo'', changes = Some (empty_changes\<lparr>deleted := [''gone.txt'']\<rparr>),
       claude_analysis = None, current_branch = Some ''main'', deployment_info = None,
       commands = [] \<rparr>"


text \<open>
  For the analyzer: a repository at \<open>/repo\<close> whose only ignore-rule file has the lines
  \<open># logs\<close>, \<open>*.log\<close>, an empty line and \<open>/dist\<close>; \<open>app.py\<close> is modified, and
  \<open>logs/debug.log\<close>, \<open>secret_api_key.txt\<close> and \<open>app.py\<close> are reported as untracked. The
  session is not interactive. In the quiet environment every git query prints nothing;
  in the interactive one the session is a terminal and the user answers \<open>Y\<close>.
\<close>

definition sample_analyzer_env :: analyzer_env where
  "sample_analyzer_env =
     \<lparr> git_result = (\<lambda>cmd.
         if cmd = [''git'', ''rev-parse'', ''--show-toplevel''] then Some (0, ''/repo'' @ [NL])
         else if cmd = [''git'', ''diff'', ''--name-only''] then Some (0, ''app.py'' @ [NL])
         else if cmd = [''git'', ''ls-files'', ''--others'', ''--exclude-standard'']
         then Some (0, ''logs/debug.log'' @ [NL] @ ''secret_api_key.txt'' @ [NL] @ ''app.py'' @ [NL])
         else Some (0, [])),
       getcwd = ''/repo'',
       os_walk = (\<lambda>root. [(''/repo'', [''.gitignore'', ''app.py''])]),
       read_lines = (\<lambda>p. if p = ''/repo/.gitignore''
                          then Some [''# logs'' @ [NL], ''*.log'' @ [NL], [NL], ''/dist'' @ [NL]]
                          else None),
       stdin_isatty = False,
       user_input = None,
       gitignore_append_ok = True,
       prompt_write_ok = True,
       analysis_write_ok = True \<rparr>"

definition quiet_analyzer_env :: analyzer_env where
  "quiet_analyzer_env = sample_analyzer_env\<lparr>git_result := (\<lambda>cmd. Some (0, []))\<rparr>"

definition interactive_analyzer_env :: analyzer_env where
  "interactive_analyzer_env =
     sample_analyzer_env\<lparr>stdin_isatty := True, user_input := Some ''Y''\<rparr>"


section \<open>Properties of the deployment script\<close>

subsection \<open>Running a command\<close>

lemma run_command_unchecked:
  "run_command env cmd False s =
     (Inr (Some (str_strip (snd (git_run env (commands s) cmd)))),
      s\<lparr>commands := commands s @ [cmd]\<rparr>)"
  by (simp add: run_command_def split: prod.splits)

lemma run_command_checked:
  "run_command env cmd True s =
     (if fst (git_run env (commands s) cmd) \<noteq> 0 then Inl (SystemExit 1)
      else Inr (Some (str_strip (snd (git_run env (commands s) cmd)))),
      s\<lparr>commands := commands s @ [cmd]\<rparr>)"
  by (simp add: run_command_def split: prod.splits)

lemma run_command_never_None: "fst (run_command env cmd check s) \<noteq> Inr None"
  by (cases check) (simp_all add: run_command_unchecked run_command_checked)

subsection \<open>The push\<close>

text \<open>
  Claim C5. The script learns whether the current branch has an upstream from what
  \<open>git rev-parse --abbrev-ref\<close> prints for the upstream of the branch: its name, or
  nothing. When it prints a name, the push step runs that query and then exactly one
  plain \<open>git push\<close>, and no \<open>git push -u origin <branch>\<close>; when it prints nothing,
  the push step runs the query and then exactly one \<open>git push -u origin <branch>\<close>, and
  no plain push. \<open>invoked\<close> is the list of the commands the push step runs.
\<close>

theorem push_variant_once:
  assumes "current_branch s = Some branch"
    and "invoked = drop (length (commands s)) (commands (snd (push_to_remote env s)))"
    and "upstream = str_strip (snd (git_run env (commands s) (upstream_query branch)))"
  shows "(upstream \<noteq> [] \<longrightarrow>
            invoked = [upstream_query branch, [''git'', ''push'']]
            \<and> count_list invoked [''git'', ''push''] = 1
            \<and> count_list invoked [''git'', ''push'', ''-u'', ''origin'', branch] = 0)
       \<and> (upstream = [] \<longrightarrow>
            invoked = [upstream_query branch, [''git'', ''push'', ''-u'', ''origin'', branch]]
            \<and> count_list invoked [''git'', ''push''] = 0
            \<and> count_list invoked [''git'', ''push'', ''-u'', ''origin'', branch] = 1)"
  using assms
  by (auto simp add: push_to_remote_def run_command_unchecked run_command_checked
        upstream_query_def split: prod.splits sum.splits)

theorem push_variant_once_witness:
  "current_branch sample_script = Some ''main''
   \<and> str_strip (snd (git_run (sample_deploy_env True) (commands sample_script)
                       (upstream_query ''main''))) = ''origin/main''
   \<and> drop (length (commands sample_script))
        (commands (snd (push_to_remote (sample_deploy_env True) sample_script)))
       = [upstream_query ''main'', [''git'', ''push'']]
   \<and> str_strip (snd (git_run (sample_deploy_env False) (commands sample_script)
                       (upstream_query ''main''))) = []
   \<and> drop (length (commands sample_script))
        (commands (snd (push_to_remote (sample_deploy_env False) sample_script)))
       = [upstream_query ''main'', [''git'', ''push'', ''-u'', ''origin'', ''main'']]"
proof -
  have b: "current_branch sample_script = Some ''main''"
    by (simp add: sample_script_def)
  have u1: "str_strip (snd (git_run (sample_deploy_env True) (commands sample_script)
                       (upstream_query ''main''))) = ''origin/main''"
    by code_simp
  have u2: "str_strip (snd (git_run (sample_deploy_env False) (commands sample_script)
                       (upstream_query ''main''))) = []"
    by code_simp
  note t1 = push_variant_once [OF b refl refl, of "sample_deploy_env True"]
  note t2 = push_variant_once [OF b refl refl, of "sample_deploy_env False"]
  show ?thesis using b u1 u2 t1 t2 by simp
qed

subsection \<open>Staging\<close>

lemma stage_existing_skips:
  "\<not> path_exists env file_path \<Longrightarrow>
     stage_existing env (file_path # fs) s = stage_existing env fs s"
  by simp

lemma stage_deleted_step:
  "stage_deleted env (file_path # fs) s =
     (case run_command env [''git'', ''rm'', ''--cached'', file_path] True
             (s\<lparr>commands := commands s
                   @ [[''git'', ''ls-files'', ''--error-unmatch'', file_path]]\<rparr>) of
        (Inl e, s2) \<Rightarrow> (Inl e, s2)
      | (Inr r, s2) \<Rightarrow> stage_deleted env fs s2)"
  by (simp add: run_command_unchecked)

text \<open>
  Claim C4, evaluated where it fails. \<open>gone.txt\<close> is listed as deleted and is no longer
  in the index, so \<open>git ls-files --error-unmatch gone.txt\<close> fails (return code 1, no
  output). The staging step still runs \<open>git rm --cached gone.txt\<close>, which fails, and
  the process ends with status 1: \<open>_run_command\<close> with \<open>check=False\<close> gives the
  captured output, never \<open>None\<close>, so the test \<open>check_result is not None\<close> always holds.
\<close>

theorem stage_changes_untracked_deletion:
  "changes sample_script = Some \<lparr> added = [], modified = [], deleted = [''gone.txt''], untracked = [] \<rparr>
   \<and> git_run (sample_deploy_env False) []
         [''git'', ''ls-files'', ''--error-unmatch'', ''gone.txt''] = (1, [])
   \<and> stage_changes (sample_deploy_env False) sample_script
       = (Inl (SystemExit 1),
          sample_script\<lparr>commands :=
            [[''git'', ''ls-files'', ''--error-unmatch'', ''gone.txt''],
             [''git'', ''rm'', ''--cached'', ''gone.txt'']]\<rparr>)"
  by code_simp

subsection \<open>The commit message\<close>

lemma startswith_set: "str_startswith l p \<Longrightarrow> set p \<subseteq> set l"
  unfolding str_startswith_def by (metis set_take_subset)

lemma field_value_colon:
  assumes "CHR '':'' \<in> set l"
  shows "\<exists>v. field_value l = Some v"
proof -
  have "length (takeWhile (\<lambda>c. c \<noteq> CHR '':'') l) < length l"
    using assms by (induction l) auto
  then show ?thesis by (simp add: field_value_def str_split1_def Let_def)
qed

lemma field_value_prefixed:
  assumes "str_startswith l p" and "CHR '':'' \<in> set p"
  shows "\<exists>v. field_value l = Some v"
  using assms startswith_set field_value_colon by blast

lemma startswith_hd: "str_startswith l (c # p) \<Longrightarrow> \<exists>t. l = c # t"
  unfolding str_startswith_def by (cases l) auto

lemma parse_line_other:
  assumes "\<not> str_startswith l ''Title:''" and "\<not> str_startswith l ''Deployment Number:''"
  shows "\<exists>info'. parse_line info l = Some info' \<and> title info' = title info
           \<and> deployment_number info' = deployment_number info"
proof -
  consider (a) "str_startswith l ''Deployment Date:''"
    | (b) "\<not> str_startswith l ''Deployment Date:''" "str_startswith l ''Deployed By:''"
    | (c) "\<not> str_startswith l ''Deployment Date:''" "\<not> str_startswith l ''Deployed By:''"
          "str_startswith l ''Description:''"
    | (d) "\<not> str_startswith l ''Deployment Date:''" "\<not> str_startswith l ''Deployed By:''"
          "\<not> str_startswith l ''Description:''"
    by blast
  then show ?thesis
  proof cases
    case a
    then obtain v where "field_value l = Some v"
      using field_value_prefixed [of l "''Deployment Date:''"] by auto
    with a assms show ?thesis by (simp add: parse_line_def)
  next
    case b
    then obtain v where "field_value l = Some v"
      using field_value_prefixed [of l "''Deployed By:''"] by auto
    with b assms show ?thesis by (simp add: parse_line_def)
  next
    case c
    then obtain v where "field_value l = Some v"
      using field_value_prefixed [of l "''Description:''"] by auto
    with c assms show ?thesis by (simp add: parse_line_def)
  next
    case d
    with assms show ?thesis by (simp add: parse_line_def)
  qed
qed

lemma parse_lines_login:
  assumes "\<forall>l\<in>set ls. str_startswith l ''Title:'' \<longrightarrow> l = ''Title: Fix login bug''"
    and "\<forall>l\<in>set ls. str_startswith l ''Deployment Number:'' \<longrightarrow> l = ''Deployment Number: 42''"
  shows "fst (parse_lines info ls)
       \<and> title (snd (parse_lines info ls))
           = (if ''Title: Fix login bug'' \<in> set ls then ''Fix login bug'' else title info)
       \<and> deployment_number (snd (parse_lines info ls))
           = (if ''Deployment Number: 42'' \<in> set ls then ''42'' else deployment_number info)"
  using assms
proof (induction ls arbitrary: info)
  case Nil
  then show ?case by simp
next
  case (Cons l ls)
  have tl: "str_startswith ''Title: Fix login bug'' ''Title:''"
    and dl: "str_startswith ''Deployment Number: 42'' ''Deployment Number:''"
    by (simp_all add: str_startswith_def)
  have ih: "\<And>info'. fst (parse_lines info' ls)
       \<and> title (snd (parse_lines info' ls))
           = (if ''Title: Fix login bug'' \<in> set ls then ''Fix login bug'' else title info')
       \<and> deployment_number (snd (parse_lines info' ls))
           = (if ''Deployment Number: 42'' \<in> set ls then ''42'' else deployment_number info')"
    using Cons by simp
  consider (num) "str_startswith l ''Deployment Number:''"
    | (ttl) "\<not> str_startswith l ''Deployment Number:''" "str_startswith l ''Title:''"
    | (other) "\<not> str_startswith l ''Deployment Number:''" "\<not> str_startswith l ''Title:''"
    by blast
  then show ?case
  proof cases
    case num
    then have l: "l = ''Deployment Number: 42''" using Cons.prems by simp
    have "parse_line info l = Some (info\<lparr>deployment_number := ''42''\<rparr>)"
      unfolding l
      by (simp add: parse_line_def str_startswith_def field_value_def str_split1_def
            str_strip_def str_isspace_def Let_def)
    then show ?thesis using ih [of "info\<lparr>deployment_number := ''42''\<rparr>"] l by simp
  next
    case ttl
    then have l: "l = ''Title: Fix login bug''" using Cons.prems by simp
    have "parse_line info l = Some (info\<lparr>title := ''Fix login bug''\<rparr>)"
      unfolding l
      by (simp add: parse_line_def str_startswith_def field_value_def str_split1_def
            str_strip_def str_isspace_def Let_def)
    then show ?thesis using ih [of "info\<lparr>title := ''Fix login bug''\<rparr>"] l by simp
  next
    case other
    then obtain info' where p: "parse_line info l = Some info'" "title info' = title info"
      "deployment_number info' = deployment_number info"
      using parse_line_other by blast
    have "l \<noteq> ''Title: Fix login bug''" "l \<noteq> ''Deployment Number: 42''"
      using other tl dl by auto
    then show ?thesis using ih [of info'] p by simp
  qed
qed

lemma str_split_append:
  "d \<notin> set xs \<Longrightarrow> str_split d (xs @ d # ys) = xs # str_split d ys"
  by (induction xs) (auto split: list.splits)

lemma str_split_single: "d \<notin> set xs \<Longrightarrow> str_split d xs = [xs]"
  by (induction xs) (auto split: list.splits)

lemma full_message_first_line:
  assumes "current_branch s = Some branch"
  shows "\<exists>rest. full_message env s = Inr (commit_message env s @ NL # rest)"
  using assms by (simp add: full_message_def)

text \<open>
  Claim C2. The latest deployment log has the lines \<open>Title: Fix login bug\<close> and
  \<open>Deployment Number: 42\<close>, and these are its only lines with the labels \<open>Title:\<close>
  and \<open>Deployment Number:\<close>. Then the analysis of the log succeeds, and the message
  the commit step hands to \<open>git commit -m\<close> starts with the line
  \<open>Deployment 42: Fix login bug\<close>.
\<close>

theorem commit_first_line:
  assumes "get_latest_deployment_file env = Some f"
    and "file_content f = Some content"
    and "''Title: Fix login bug'' \<in> set (str_split NL content)"
    and "''Deployment Number: 42'' \<in> set (str_split NL content)"
    and "\<forall>l\<in>set (str_split NL content).
           str_startswith l ''Title:'' \<longrightarrow> l = ''Title: Fix login bug''"
    and "\<forall>l\<in>set (str_split NL content).
           str_startswith l ''Deployment Number:'' \<longrightarrow> l = ''Deployment Number: 42''"
    and "current_branch s = Some branch"
    and "s1 = snd (analyze_with_deployment_log env s)"
  shows "fst (analyze_with_deployment_log env s) = Inr True
       \<and> commit_message env s1 = ''Deployment 42: Fix login bug''
       \<and> (\<exists>rest. full_message env s1 = Inr (''Deployment 42: Fix login bug'' @ NL # rest))
       \<and> (\<exists>rest. commands (snd (create_deployment_commit env s1))
             = commands s @ [[''git'', ''commit'', ''-m'',
                              ''Deployment 42: Fix login bug'' @ NL # rest]])"
proof -
  define info where "info = snd (parse_lines empty_record (str_split NL content))"
  have parsed: "fst (parse_lines empty_record (str_split NL content))"
    "title info = ''Fix login bug''" "deployment_number info = ''42''"
    using parse_lines_login [OF assms(5) assms(6), of empty_record] assms(3,4)
    by (simp_all add: info_def)
  have pl: "parse_lines empty_record (str_split NL content) = (True, info)"
    using parsed(1) by (simp add: info_def prod_eq_iff)
  have an: "analyze_with_deployment_log env s =
      (Inr True, s\<lparr>deployment_info := Some info,
          claude_analysis :=
            Some \<lparr> deployment_comment = take 72 (title info),
                   summary = description info,
                   readme_updates = [],
                   gitignore_updates = [],
                   should_update_readme = False,
                   should_update_gitignore = False \<rparr>\<rparr>)"
    using assms(1,2) pl by (simp add: analyze_with_deployment_log_def parse_deployment_file_def)
  have s1: "deployment_info s1 = Some info" "current_branch s1 = Some branch"
    "commands s1 = commands s"
    using an assms(7,8) by simp_all
  have cm: "commit_message env s1 = ''Deployment 42: Fix login bug''"
    using s1 parsed by (simp add: commit_message_def)
  obtain rest where fm: "full_message env s1 = Inr (''Deployment 42: Fix login bug'' @ NL # rest)"
    using full_message_first_line [OF s1(2), of env] cm by auto
  have cc: "commands (snd (create_deployment_commit env s1))
      = commands s @ [[''git'', ''commit'', ''-m'', ''Deployment 42: Fix login bug'' @ NL # rest]]"
    using fm s1(3)
    by (simp add: create_deployment_commit_def run_command_checked split: prod.splits sum.splits)
  show ?thesis using an cm fm cc by auto
qed

theorem commit_first_line_witness:
  "get_latest_deployment_file (sample_deploy_env False) = Some sample_log
   \<and> file_content sample_log
       = Some (''Title: Fix login bug'' @ [NL] @ ''Deployment Number: 42'')
   \<and> str_split NL (''Title: Fix login bug'' @ [NL] @ ''Deployment Number: 42'')
       = [''Title: Fix login bug'', ''Deployment Number: 42'']
   \<and> current_branch sample_script = Some ''main''
   \<and> commit_message (sample_deploy_env False)
        (snd (analyze_with_deployment_log (sample_deploy_env False) sample_script))
       = ''Deployment 42: Fix login bug''
   \<and> (\<exists>rest. full_message (sample_deploy_env False)
                (snd (analyze_with_deployment_log (sample_deploy_env False) sample_script))
              = Inr (''Deployment 42: Fix login bug'' @ NL # rest))"
proof -
  have a: "get_latest_deployment_file (sample_deploy_env False) = Some sample_log"
    by code_simp
  have c: "file_content sample_log
       = Some (''Title: Fix login bug'' @ [NL] @ ''Deployment Number: 42'')"
    by (simp add: sample_log_def)
  have l: "str_split NL (''Title: Fix login bug'' @ [NL] @ ''Deployment Number: 42'')
       = [''Title: Fix login bug'', ''Deployment Number: 42'']"
    by code_simp
  have h1: "''Title: Fix login bug''
      \<in> set (str_split NL (''Title: Fix login bug'' @ [NL] @ ''Deployment Number: 42''))"
    and h2: "''Deployment Number: 42''
      \<in> set (str_split NL (''Title: Fix login bug'' @ [NL] @ ''Deployment Number: 42''))"
    unfolding l by simp_all
  have h3: "\<forall>l\<in>set (str_split NL (''Title: Fix login bug'' @ [NL] @ ''Deployment Number: 42'')).
           str_startswith l ''Title:'' \<longrightarrow> l = ''Title: Fix login bug''"
    and h4: "\<forall>l\<in>set (str_split NL (''Title: Fix login bug'' @ [NL] @ ''Deployment Number: 42'')).
           str_startswith l ''Deployment Number:'' \<longrightarrow> l = ''Deployment Number: 42''"
    unfolding l by (simp_all add: str_startswith_def)
  have b: "current_branch sample_script = Some ''main''"
    by (simp add: sample_script_def)
  note t = commit_first_line [OF a c h1 h2 h3 h4 b refl]
  show ?thesis using a c l b t by simp
qed

text \<open>
  Claim C7, evaluated where it fails. For a deployment log whose title is \<open>n + 1\<close>
  letters \<open>a\<close> and whose number is 7, the analysis stores the title cut to 72
  characters as \<open>deployment_comment\<close>, but the commit step builds the first line from the
  title itself: the first line is \<open>Deployment 7:\<close> followed by all \<open>n + 1\<close> letters,
  of length \<open>n + 15\<close>. No bound holds for every title.
\<close>

theorem long_title_not_truncated:
  "let f = \<lparr> file_name = nm, st_mtime = t,
             file_content = Some (''Title: '' @ replicate (Suc n) (CHR ''a'') @ [NL]
                                  @ ''Deployment Number: 7'') \<rparr>;
       env' = env\<lparr>deployment_logs := Some [f]\<rparr>;
       s1 = snd (analyze_with_deployment_log env' (s\<lparr>current_branch := Some branch\<rparr>))
   in map_option deployment_comment (claude_analysis s1) = Some (replicate (min 72 (Suc n)) (CHR ''a''))
      \<and> commit_message env' s1 = ''Deployment 7: '' @ replicate (Suc n) (CHR ''a'')
      \<and> length (commit_message env' s1) = n + 15
      \<and> (\<exists>rest. full_message env' s1
            = Inr (''Deployment 7: '' @ replicate (Suc n) (CHR ''a'') @ NL # rest))"
proof -
  define content where "content = ''Title: '' @ replicate (Suc n) (CHR ''a'') @ [NL]
                                  @ ''Deployment Number: 7''"
  define f where "f = \<lparr> file_name = nm, st_mtime = t, file_content = Some content \<rparr>"
  define env' where "env' = env\<lparr>deployment_logs := Some [f]\<rparr>"
  define s1 where "s1 = snd (analyze_with_deployment_log env' (s\<lparr>current_branch := Some branch\<rparr>))"
  have nl: "NL \<notin> set (''Title: '' @ replicate (Suc n) (CHR ''a''))"
    "NL \<notin> set ''Deployment Number: 7''"
    by (auto simp add: NL_def)
  have "content = (''Title: '' @ replicate (Suc n) (CHR ''a'')) @ NL # ''Deployment Number: 7''"
    by (simp add: content_def)
  then have lines: "str_split NL content
      = [''Title: '' @ replicate (Suc n) (CHR ''a''), ''Deployment Number: 7'']"
    using str_split_append [OF nl(1)] str_split_single [OF nl(2)] by simp
  have sp: "\<not> str_isspace (CHR ''a'')" by (simp add: str_isspace_def)
  have strip: "str_strip (CHR '' '' # replicate (Suc n) (CHR ''a'')) = replicate (Suc n) (CHR ''a'')"
    using sp by (simp add: str_strip_def str_isspace_def del: replicate_Suc)
  have l1: "parse_line info (''Title: '' @ replicate (Suc n) (CHR ''a''))
      = Some (info\<lparr>title := replicate (Suc n) (CHR ''a'')\<rparr>)" for info
    using strip
    by (simp add: parse_line_def str_startswith_def field_value_def str_split1_def Let_def
          del: replicate_Suc)
  have l2: "parse_line info ''Deployment Number: 7'' = Some (info\<lparr>deployment_number := ''7''\<rparr>)"
    for info
    by (simp add: parse_line_def str_startswith_def field_value_def str_split1_def
          str_strip_def str_isspace_def Let_def)
  have pl: "parse_lines empty_record (str_split NL content)
      = (True, empty_record\<lparr>title := replicate (Suc n) (CHR ''a''), deployment_number := ''7''\<rparr>)"
    unfolding lines using l1 [of empty_record] l2 by (simp del: replicate_Suc)
  have s1_eq: "deployment_info s1 = Some (empty_record\<lparr>title := replicate (Suc n) (CHR ''a''), deployment_number := ''7''\<rparr>)"
    "current_branch s1 = Some branch"
    "map_option deployment_comment (claude_analysis s1) = Some (replicate (min 72 (Suc n)) (CHR ''a''))"
    using pl
    by (simp_all add: s1_def env'_def f_def analyze_with_deployment_log_def
          get_latest_deployment_file_def parse_deployment_file_def del: replicate_Suc)
  have cm: "commit_message env' s1 = ''Deployment 7: '' @ replicate (Suc n) (CHR ''a'')"
    using s1_eq(1) by (simp add: commit_message_def del: replicate_Suc)
  obtain rest where fm: "full_message env' s1 = Inr (commit_message env' s1 @ NL # rest)"
    using full_message_first_line [OF s1_eq(2)] by blast
  have "map_option deployment_comment (claude_analysis s1) = Some (replicate (min 72 (Suc n)) (CHR ''a''))
      \<and> commit_message env' s1 = ''Deployment 7: '' @ replicate (Suc n) (CHR ''a'')
      \<and> length (commit_message env' s1) = n + 15
      \<and> (\<exists>rest. full_message env' s1
            = Inr (''Deployment 7: '' @ replicate (Suc n) (CHR ''a'') @ NL # rest))"
    using s1_eq(3) cm fm by (auto simp del: replicate_Suc)
  then show ?thesis
    unfolding s1_def env'_def f_def content_def Let_def .
qed

subsection \<open>Status lines that reach no list\<close>










section \<open>Properties of the change analyzer\<close>

subsection \<open>The sensitive-file test\<close>

lemma str_lower_char_slash: "str_lower_char c = CHR ''/'' \<longleftrightarrow> c = CHR ''/''"
proof
  assume a: "str_lower_char c = CHR ''/''"
  show "c = CHR ''/''"
  proof (rule ccontr)
    assume n: "c \<noteq> CHR ''/''"
    with a have up: "(65 \<le> (of_char c :: nat) \<and> (of_char c :: nat) \<le> 90)
        \<or> (192 \<le> (of_char c :: nat) \<and> (of_char c :: nat) \<le> 222 \<and> (of_char c :: nat) \<noteq> 215)"
      and eq: "char_of ((of_char c :: nat) + 32) = CHR ''/''"
      by (auto simp add: str_lower_char_def Let_def split: if_splits)
    from eq have "(of_char (char_of ((of_char c :: nat) + 32)) :: nat) = of_char (CHR ''/'')"
      by simp
    then have "((of_char c :: nat) + 32) mod 256 = 47" by simp
    with up show False by auto
  qed
next
  assume "c = CHR ''/''"
  then show "str_lower_char c = CHR ''/''" by (simp add: str_lower_char_def)
qed

lemma basename_lower: "os_path_basename (str_lower p) = str_lower (os_path_basename p)"
proof -
  have "(\<lambda>c. c \<noteq> CHR ''/'') \<circ> str_lower_char = (\<lambda>c. c \<noteq> CHR ''/'')"
    by (auto simp add: fun_eq_iff str_lower_char_slash)
  then show ?thesis
    by (simp add: os_path_basename_def str_lower_def rev_map takeWhile_map)
qed

lemma str_contains_iff: "str_contains k s \<longleftrightarrow> (\<exists>u v. s = u @ k @ v)"
proof (induction s)
  case Nil
  then show ?case by auto
next
  case (Cons c cs)
  have "str_startswith (c # cs) k \<longleftrightarrow> (\<exists>v. c # cs = k @ v)"
    unfolding str_startswith_def by (metis append_eq_conv_conj append_take_drop_id)
  moreover have "(\<exists>u v. c # cs = u @ k @ v) \<longleftrightarrow> (\<exists>v. c # cs = k @ v) \<or> (\<exists>u v. cs = u @ k @ v)"
  proof
    assume "\<exists>u v. c # cs = u @ k @ v"
    then obtain u v where uv: "c # cs = u @ k @ v" by blast
    show "(\<exists>v. c # cs = k @ v) \<or> (\<exists>u v. cs = u @ k @ v)"
    proof (cases u)
      case Nil
      with uv show ?thesis by auto
    next
      case (Cons a u')
      with uv have "cs = u' @ k @ v" by simp
      then show ?thesis by blast
    qed
  next
    assume "(\<exists>v. c # cs = k @ v) \<or> (\<exists>u v. cs = u @ k @ v)"
    then show "\<exists>u v. c # cs = u @ k @ v"
    proof
      assume "\<exists>v. c # cs = k @ v"
      then show ?thesis by (metis append_Nil)
    next
      assume "\<exists>u v. cs = u @ k @ v"
      then obtain u v where "cs = u @ k @ v" by blast
      then have "c # cs = (c # u) @ k @ v" by simp
      then show ?thesis by blast
    qed
  qed
  ultimately show ?case using Cons.IH by simp
qed

lemma sensitive_pattern_loop_iff:
  "sensitive_pattern_loop n l ps \<longleftrightarrow>
     (\<exists>pattern\<in>set ps. fnmatch n (str_lower pattern) \<or> fnmatch l (str_lower pattern))"
  by (induction ps) auto

lemma sensitive_keyword_loop_iff:
  "sensitive_keyword_loop n ks \<longleftrightarrow> (\<exists>keyword\<in>set ks. str_contains keyword n)"
  by (induction ks) auto

lemma is_sensitive_unfold:
  "is_sensitive g path \<longleftrightarrow>
     (\<exists>pattern\<in>set (sensitive_patterns g).
         fnmatch (str_lower (os_path_basename path)) (str_lower pattern)
         \<or> fnmatch (str_lower path) (str_lower pattern))
     \<or> (\<exists>keyword\<in>set SENSITIVE_KEYWORDS.
           \<exists>u v. str_lower (os_path_basename path) = u @ keyword @ v)"
  by (simp add: is_sensitive_def Let_def sensitive_pattern_loop_iff sensitive_keyword_loop_iff
        str_contains_iff)

lemma is_sensitive_lower:
  assumes "str_lower q = str_lower path"
  shows "is_sensitive g q = is_sensitive g path"
proof -
  have "str_lower (os_path_basename q) = str_lower (os_path_basename path)"
    using assms basename_lower by metis
  with assms show ?thesis by (simp add: is_sensitive_def)
qed

text \<open>
  Claim C8. For the parser the analyzer constructs, \<open>is_sensitive\<close> holds of a path
  exactly when the lowercased basename or the lowercased path matches one of the fixed
  sensitive patterns, or the lowercased basename contains one of the fixed keywords. The
  patterns are compared in lower case too (three of them are written with capitals), so the
  test ignores case: two paths that agree in lower case get the same answer. The answer
  depends on the path alone: it is the same in every environment (whatever the files
  contain, whatever ignore rules were loaded).
\<close>

theorem is_sensitive_iff:
  "(is_sensitive (GitignoreParser_init env root) path \<longleftrightarrow>
      (\<exists>pattern\<in>set SENSITIVE_PATTERNS.
          fnmatch (str_lower (os_path_basename path)) (str_lower pattern)
          \<or> fnmatch (str_lower path) (str_lower pattern))
      \<or> (\<exists>keyword\<in>set SENSITIVE_KEYWORDS.
            \<exists>u v. str_lower (os_path_basename path) = u @ keyword @ v))
   \<and> (str_lower q = str_lower path \<longrightarrow>
        is_sensitive (GitignoreParser_init env root) q
          = is_sensitive (GitignoreParser_init env root) path)
   \<and> is_sensitive (GitignoreParser_init env' root') path
        = is_sensitive (GitignoreParser_init env root) path"
proof -
  have sp: "sensitive_patterns (GitignoreParser_init e r) = SENSITIVE_PATTERNS" for e r
    by (simp add: GitignoreParser_init_def Let_def)
  have a: "is_sensitive (GitignoreParser_init env root) path \<longleftrightarrow>
      (\<exists>pattern\<in>set SENSITIVE_PATTERNS.
          fnmatch (str_lower (os_path_basename path)) (str_lower pattern)
          \<or> fnmatch (str_lower path) (str_lower pattern))
      \<or> (\<exists>keyword\<in>set SENSITIVE_KEYWORDS.
            \<exists>u v. str_lower (os_path_basename path) = u @ keyword @ v)"
    using is_sensitive_unfold [of "GitignoreParser_init env root" path] by (simp only: sp)
  have b: "str_lower q = str_lower path \<longrightarrow>
        is_sensitive (GitignoreParser_init env root) q
          = is_sensitive (GitignoreParser_init env root) path"
    using is_sensitive_lower by blast
  have c: "is_sensitive (GitignoreParser_init env' root') path
        = is_sensitive (GitignoreParser_init env root) path"
    by (simp add: is_sensitive_def sp)
  from a b c show ?thesis by blast
qed

theorem is_sensitive_iff_witness:
  "str_lower ''config/prod.env'' = str_lower ''Config/Prod.ENV''
   \<and> ''*.env'' \<in> set SENSITIVE_PATTERNS
   \<and> fnmatch (str_lower (os_path_basename ''Config/Prod.ENV'')) (str_lower ''*.env'')
   \<and> is_sensitive (GitignoreParser_init sample_analyzer_env None) ''Config/Prod.ENV''
   \<and> is_sensitive (GitignoreParser_init sample_analyzer_env None) ''config/prod.env''
   \<and> is_sensitive (GitignoreParser_init quiet_analyzer_env (Some ''/elsewhere'')) ''Config/Prod.ENV''"
proof -
  have l: "str_lower ''config/prod.env'' = str_lower ''Config/Prod.ENV''" by code_simp
  have p: "''*.env'' \<in> set SENSITIVE_PATTERNS" by (simp add: SENSITIVE_PATTERNS_def)
  have m: "fnmatch (str_lower (os_path_basename ''Config/Prod.ENV'')) (str_lower ''*.env'')"
    by code_simp
  note t = is_sensitive_iff [of sample_analyzer_env None "''Config/Prod.ENV''"
      "''config/prod.env''" quiet_analyzer_env "Some ''/elsewhere''"]
  have a: "is_sensitive (GitignoreParser_init sample_analyzer_env None) ''Config/Prod.ENV''"
    using t p m by blast
  have b: "is_sensitive (GitignoreParser_init sample_analyzer_env None) ''config/prod.env''"
    using t l a by blast
  have c: "is_sensitive (GitignoreParser_init quiet_analyzer_env (Some ''/elsewhere'')) ''Config/Prod.ENV''"
    using t a by blast
  show ?thesis using l p m a b c by blast
qed

subsection \<open>The classifier\<close>

lemma should_ignore_iff:
  "should_ignore g cwd path \<longleftrightarrow>
     (\<exists>pattern\<in>set (ignore_patterns g). rule_matches (os_path_abspath cwd path) pattern)"
proof -
  have "should_ignore_loop a ps \<longleftrightarrow> (\<exists>pattern\<in>set ps. rule_matches a pattern)" for a ps
    by (induction ps) auto
  then show ?thesis by (simp add: should_ignore_def)
qed

lemma check_sensitive_loop_filter:
  "check_sensitive_loop g cwd files sens ign =
     (sens @ [f \<leftarrow> files. \<not> should_ignore g cwd f \<and> is_sensitive g f],
      ign @ [f \<leftarrow> files. should_ignore g cwd f])"
  by (induction files arbitrary: sens ign) simp_all

lemma check_sensitive_files_filter:
  "check_sensitive_files files g cwd =
     ([f \<leftarrow> files. \<not> should_ignore g cwd f \<and> is_sensitive g f],
      [f \<leftarrow> files. should_ignore g cwd f])"
  by (simp add: check_sensitive_files_def check_sensitive_loop_filter)

lemma set_exclude: "set (exclude xs ys) = set xs - set ys"
  by (auto simp add: exclude_def)

lemma set_eligible_files:
  "set (eligible_files files sens ign) = set files - set sens - set ign"
  by (auto simp add: eligible_files_def set_exclude Let_def)

lemma eligible_files_kept:
  assumes "\<not> stdin_isatty env"
  shows "handle_sensitive env changed_files sensitive_files = Inr changed1 \<longleftrightarrow>
           changed1 = exclude changed_files sensitive_files"
    and "(if ignored_files \<noteq> [] then exclude (exclude changed_files sensitive_files) ignored_files
          else exclude changed_files sensitive_files)
         = eligible_files changed_files sensitive_files ignored_files"
  using assms by (auto simp add: handle_sensitive_def eligible_files_def exclude_def)

text \<open>
  Claim C1. \<open>check_sensitive_files\<close> places every path of its input by ignore-first
  precedence. A path that matches a loaded ignore rule (\<open>should_ignore\<close>, that is, some
  loaded pattern passes one of the two tests, see \<open>should_ignore_iff\<close>) is in the
  ignored list, and neither in the sensitive list nor among the eligible paths, whether
  \<open>is_sensitive\<close> holds of it or not. A path that matches no ignore rule and is sensitive
  is in the sensitive list only. Any other path is eligible, and in neither list. The
  eligible paths are what \<open>main\<close> keeps after excluding the two lists (in a session
  that is not interactive, see \<open>eligible_files_kept\<close>).
\<close>

theorem classify_ignore_first:
  assumes "check_sensitive_files files g cwd = (sensitive_files, ignored_files)"
    and "eligible = eligible_files files sensitive_files ignored_files"
    and "path \<in> set files"
  shows "(should_ignore g cwd path \<longrightarrow>
            path \<in> set ignored_files \<and> path \<notin> set sensitive_files \<and> path \<notin> set eligible)
       \<and> (\<not> should_ignore g cwd path \<and> is_sensitive g path \<longrightarrow>
            path \<in> set sensitive_files \<and> path \<notin> set ignored_files \<and> path \<notin> set eligible)
       \<and> (\<not> should_ignore g cwd path \<and> \<not> is_sensitive g path \<longrightarrow>
            path \<in> set eligible \<and> path \<notin> set sensitive_files \<and> path \<notin> set ignored_files)"
  using assms by (auto simp add: check_sensitive_files_filter set_eligible_files)

theorem classify_ignore_first_witness:
  "check_sensitive_files [''logs/debug.log'', ''secret_api_key.txt'', ''app.py'']
       (GitignoreParser_init sample_analyzer_env None) ''/repo''
     = ([''secret_api_key.txt''], [''logs/debug.log''])
   \<and> eligible_files [''logs/debug.log'', ''secret_api_key.txt'', ''app.py'']
       [''secret_api_key.txt''] [''logs/debug.log''] = [''app.py'']
   \<and> should_ignore (GitignoreParser_init sample_analyzer_env None) ''/repo'' ''logs/debug.log''
   \<and> is_sensitive (GitignoreParser_init sample_analyzer_env None) ''logs/debug.log''
   \<and> ''logs/debug.log'' \<notin> set [''secret_api_key.txt'']
   \<and> ''logs/debug.log'' \<notin> set [''app.py'']
   \<and> \<not> should_ignore (GitignoreParser_init sample_analyzer_env None) ''/repo''
         ''secret_api_key.txt''
   \<and> is_sensitive (GitignoreParser_init sample_analyzer_env None) ''secret_api_key.txt''
   \<and> ''secret_api_key.txt'' \<in> set [''secret_api_key.txt'']
   \<and> \<not> should_ignore (GitignoreParser_init sample_analyzer_env None) ''/repo'' ''app.py''
   \<and> \<not> is_sensitive (GitignoreParser_init sample_analyzer_env None) ''app.py''
   \<and> ''app.py'' \<in> set [''app.py'']"
proof -
  let ?g = "GitignoreParser_init sample_analyzer_env None"
  let ?files = "[''logs/debug.log'', ''secret_api_key.txt'', ''app.py'']"
  have c: "check_sensitive_files ?files ?g ''/repo''
      = ([''secret_api_key.txt''], [''logs/debug.log''])"
    by code_simp
  have e: "eligible_files ?files [''secret_api_key.txt''] [''logs/debug.log''] = [''app.py'']"
    by code_simp
  have i1: "should_ignore ?g ''/repo'' ''logs/debug.log''" by code_simp
  have s1: "is_sensitive ?g ''logs/debug.log''" by code_simp
  have i2: "\<not> should_ignore ?g ''/repo'' ''secret_api_key.txt''" by code_simp
  have s2: "is_sensitive ?g ''secret_api_key.txt''" by code_simp
  have i3: "\<not> should_ignore ?g ''/repo'' ''app.py''" by code_simp
  have s3: "\<not> is_sensitive ?g ''app.py''" by code_simp
  have m1: "''logs/debug.log'' \<in> set ?files" and m2: "''secret_api_key.txt'' \<in> set ?files"
    and m3: "''app.py'' \<in> set ?files"
    by simp_all
  note t1 = classify_ignore_first [OF c e [symmetric] m1]
  note t2 = classify_ignore_first [OF c e [symmetric] m2]
  note t3 = classify_ignore_first [OF c e [symmetric] m3]
  have r1: "''logs/debug.log'' \<notin> set [''secret_api_key.txt''] \<and> ''logs/debug.log'' \<notin> set [''app.py'']"
    using t1 i1 by blast
  have r2: "''secret_api_key.txt'' \<in> set [''secret_api_key.txt'']"
    using t2 i2 s2 by blast
  have r3: "''app.py'' \<in> set [''app.py'']"
    using t3 i3 s3 by blast
  show ?thesis using c e i1 s1 i2 s2 i3 s3 r1 r2 r3 by blast
qed

subsection \<open>The exit status\<close>

text \<open>
  Claim C3. When the classifier finds at least one sensitive file among the changed files,
  the analyzer ends with exit status 1, so not 0: whether the session is interactive or
  not, whatever the answer to the question, whether the paths were appended to the
  ignore-rule file, and whether each write succeeds or raises.
\<close>

theorem sensitive_exit_nonzero:
  assumes "check_sensitive_files (get_git_changes env) (GitignoreParser_init env None) (getcwd env)
             = (sensitive_files, ignored_files)"
    and "sensitive_files \<noteq> []"
  shows "exit_status (analyzer_main env) = 1 \<and> exit_status (analyzer_main env) \<noteq> 0"
proof -
  have ne: "get_git_changes env \<noteq> []"
  proof
    assume "get_git_changes env = []"
    then have "sensitive_files = []"
      using assms(1) by (simp add: check_sensitive_files_def)
    with assms(2) show False by simp
  qed
  have "analyzer_main env = Inl (SystemExit 1) \<or> analyzer_main env = Inl PyException"
    using ne assms
    by (auto simp add: analyzer_main_def handle_sensitive_def Let_def
          split: sum.splits option.splits)
  then show ?thesis by (auto simp add: exit_status_def)
qed

theorem sensitive_exit_nonzero_witness:
  "check_sensitive_files (get_git_changes sample_analyzer_env)
       (GitignoreParser_init sample_analyzer_env None) (getcwd sample_analyzer_env)
     = ([''secret_api_key.txt''], [''logs/debug.log''])
   \<and> [''secret_api_key.txt''] \<noteq> ([] :: string list)
   \<and> stdin_isatty sample_analyzer_env = False
   \<and> exit_status (analyzer_main sample_analyzer_env) = 1
   \<and> check_sensitive_files (get_git_changes interactive_analyzer_env)
       (GitignoreParser_init interactive_analyzer_env None) (getcwd interactive_analyzer_env)
     = ([''secret_api_key.txt''], [''logs/debug.log''])
   \<and> stdin_isatty interactive_analyzer_env = True
   \<and> map_option str_lower (user_input interactive_analyzer_env) = Some ''y''
   \<and> exit_status (analyzer_main interactive_analyzer_env) = 1"
proof -
  have c: "check_sensitive_files (get_git_changes sample_analyzer_env)
       (GitignoreParser_init sample_analyzer_env None) (getcwd sample_analyzer_env)
     = ([''secret_api_key.txt''], [''logs/debug.log''])"
    by code_simp
  have c': "check_sensitive_files (get_git_changes interactive_analyzer_env)
       (GitignoreParser_init interactive_analyzer_env None) (getcwd interactive_analyzer_env)
     = ([''secret_api_key.txt''], [''logs/debug.log''])"
    by code_simp
  have n: "[''secret_api_key.txt''] \<noteq> ([] :: string list)" by simp
  have t: "stdin_isatty sample_analyzer_env = False" by (simp add: sample_analyzer_env_def)
  have t': "stdin_isatty interactive_analyzer_env = True"
    by (simp add: interactive_analyzer_env_def)
  have u: "map_option str_lower (user_input interactive_analyzer_env) = Some ''y''"
    by code_simp
  show ?thesis
    using c c' n t t' u sensitive_exit_nonzero [OF c n] sensitive_exit_nonzero [OF c' n]
    by simp
qed

subsection \<open>The changed files\<close>













section \<open>Nothing to do\<close>

text \<open>
  Claim C6, as stated, fails for the analyzer: with no changed file it ends with status 1
  (\<open>sys.exit(1)\<close> after \<open>No changes detected\<close>), not with status 0.
\<close>

theorem analyzer_no_changes_counterexample:
  "get_git_changes quiet_analyzer_env = []
   \<and> exit_status (analyzer_main quiet_analyzer_env) = 1
   \<and> exit_status (analyzer_main quiet_analyzer_env) \<noteq> 0"
  by code_simp

text \<open>
  Claim C6, amended. When \<open>git status --porcelain\<close> prints nothing, the deployment
  script returns normally, with exit status 0, after three queries and no command that
  changes the repository. The analyzer, when it finds no changed file, ends with exit
  status 1.
\<close>

theorem no_changes_outcome:
  assumes "git_run env [] [''git'', ''rev-parse'', ''--show-toplevel''] = (0, root)"
    and "chdir_ok env"
    and "git_run env [[''git'', ''rev-parse'', ''--show-toplevel'']]
           [''git'', ''branch'', ''--show-current''] = (0, branch)"
    and "git_run env [[''git'', ''rev-parse'', ''--show-toplevel''],
                      [''git'', ''branch'', ''--show-current'']]
           [''git'', ''status'', ''--porcelain''] = (0, status)"
    and "str_strip status = []"
    and "get_git_changes aenv = []"
  shows "fst (deploy_main env) = Inr ()
       \<and> exit_status (fst (deploy_main env)) = 0
       \<and> commands (snd (deploy_main env))
           = [[''git'', ''rev-parse'', ''--show-toplevel''],
              [''git'', ''branch'', ''--show-current''],
              [''git'', ''status'', ''--porcelain'']]
       \<and> analyzer_main aenv = Inl (SystemExit 1)
       \<and> exit_status (analyzer_main aenv) = 1"
  using assms
  by (simp add: deploy_main_def script_init_def deploy_run_def check_git_status_def
        run_command_checked analyzer_main_def exit_status_def Let_def)

theorem no_changes_outcome_witness:
  "git_run (sample_deploy_env False) [] [''git'', ''rev-parse'', ''--show-toplevel'']
     = (0, ''/repo'' @ [NL])
   \<and> chdir_ok (sample_deploy_env False)
   \<and> git_run (sample_deploy_env False) [[''git'', ''rev-parse'', ''--show-toplevel'']]
        [''git'', ''branch'', ''--show-current''] = (0, ''main'' @ [NL])
   \<and> git_run (sample_deploy_env False) [[''git'', ''rev-parse'', ''--show-toplevel''],
                      [''git'', ''branch'', ''--show-current'']]
        [''git'', ''status'', ''--porcelain''] = (0, [])
   \<and> str_strip [] = []
   \<and> get_git_changes quiet_analyzer_env = []
   \<and> exit_status (fst (deploy_main (sample_deploy_env False))) = 0
   \<and> exit_status (analyzer_main quiet_analyzer_env) = 1"
proof -
  have h1: "git_run (sample_deploy_env False) [] [''git'', ''rev-parse'', ''--show-toplevel'']
     = (0, ''/repo'' @ [NL])" by code_simp
  have h2: "chdir_ok (sample_deploy_env False)" by code_simp
  have h3: "git_run (sample_deploy_env False) [[''git'', ''rev-parse'', ''--show-toplevel'']]
        [''git'', ''branch'', ''--show-current''] = (0, ''main'' @ [NL])" by code_simp
  have h4: "git_run (sample_deploy_env False) [[''git'', ''rev-parse'', ''--show-toplevel''],
                      [''git'', ''branch'', ''--show-current'']]
        [''git'', ''status'', ''--porcelain''] = (0, [])" by code_simp
  have h5: "str_strip [] = []" by code_simp
  have h6: "get_git_changes quiet_analyzer_env = []" by code_simp
  note t = no_changes_outcome [OF h1 h2 h3 h4 h5 h6]
  show ?thesis using h1 h2 h3 h4 h5 h6 t by blast
qed

end
